theory Spec2Isabelle
  imports Main "HOL-Library.Char_ord" "HOL-Library.List_Lexorder"
begin

section \<open>Values of the hooks\<close>

text \<open>
  The hooks of \<^verbatim>\<open>src/source/index.ts\<close> work on JavaScript numbers, arrays of numbers
  and keyboard events. A Duration is an integer number of milliseconds, so a number is an
  \<^typ>\<open>int\<close> here. The parameter \<^verbatim>\<open>interval: number | number[]\<close> is either a number
  or a reference to an array object; after line 28 the variable holds what indexing an
  array gives: a number or \<^verbatim>\<open>undefined\<close>.
\<close>

type_synonym addr = nat

datatype interval_value = Number int | ArrayRef addr

datatype delay = Undefined | Millis int

subsection \<open>The store of array objects\<close>

text \<open>
  Arrays are objects: \<^verbatim>\<open>filter\<close> builds a new one, \<^verbatim>\<open>sort\<close> reorders the one it is
  called on. The store maps each address to the elements of the array that lives there;
  addresses below \<open>next_addr\<close> are in use.
\<close>

record store =
  cells :: "addr \<Rightarrow> int list"
  next_addr :: addr

definition empty_store :: store where
  "empty_store = \<lparr>cells = (\<lambda>_. []), next_addr = 0\<rparr>"

definition allocated :: "store \<Rightarrow> addr \<Rightarrow> bool" where
  "allocated s a = (a < next_addr s)"

definition array_alloc :: "int list \<Rightarrow> store \<Rightarrow> addr \<times> store" where
  "array_alloc xs s =
     (next_addr s, \<lparr>cells = (cells s)(next_addr s := xs), next_addr = Suc (next_addr s)\<rparr>)"

subsection \<open>Number to string, and the default sort order\<close>

text \<open>
  \<^verbatim>\<open>sort()\<close> without a comparator converts the elements to strings and compares the
  strings by code units. The string of an integer (of magnitude below \<open>10^21\<close>) is its
  decimal numeral, with a leading minus sign when negative.
\<close>

definition digit_char :: "nat \<Rightarrow> char" where
  "digit_char d = ''0123456789'' ! d"

fun digits :: "nat \<Rightarrow> string" where
  "digits n = (if n < 10 then [digit_char n] else digits (n div 10) @ [digit_char (n mod 10)])"

declare digits.simps [simp del]

definition Number_toString :: "int \<Rightarrow> string" where
  "Number_toString i = (if i < 0 then CHR ''-'' # digits (nat (- i)) else digits (nat i))"

subsection \<open>Array operations used by the effect\<close>

text \<open>\<^verbatim>\<open>xs.filter(p)\<close>: a new array with the elements of \<open>xs\<close> that satisfy \<open>p\<close>, in order.\<close>

definition Array_filter :: "(int \<Rightarrow> bool) \<Rightarrow> addr \<Rightarrow> store \<Rightarrow> addr \<times> store" where
  "Array_filter p a s = array_alloc (filter p (cells s a)) s"

text \<open>\<^verbatim>\<open>xs.sort()\<close>: reorders \<open>xs\<close> itself by the strings of its elements and returns \<open>xs\<close>.\<close>

definition Array_sort :: "addr \<Rightarrow> store \<Rightarrow> addr \<times> store" where
  "Array_sort a s = (a, s\<lparr>cells := (cells s)(a := sort_key Number_toString (cells s a))\<rparr>)"

text \<open>\<^verbatim>\<open>xs[i]\<close>: the element at index \<open>i\<close>, or \<^verbatim>\<open>undefined\<close> past the end.\<close>

definition Array_get :: "addr \<Rightarrow> nat \<Rightarrow> store \<Rightarrow> delay" where
  "Array_get a i s = (if i < length (cells s a) then Millis (cells s a ! i) else Undefined)"

text \<open>
  \<^verbatim>\<open>v < m\<close> for a number \<open>m\<close>: \<^verbatim>\<open>undefined\<close> converts to NaN, and every comparison
  with NaN is false.
\<close>

fun js_less :: "delay \<Rightarrow> int \<Rightarrow> bool" where
  "js_less Undefined m = False"
| "js_less (Millis n) m = (n < m)"

section \<open>useInterval\<close>

text \<open>
  What the effect of \<^verbatim>\<open>useInterval\<close> does with the timer primitive: it returns early
  without a timer, or calls \<^verbatim>\<open>setTimeout\<close> with a delay and a callback that sets the
  iterations state to \<open>iterations + 1\<close>.
\<close>

datatype timer = NoTimer | SetTimeout delay nat

text \<open>Lines 30 to 38: discard a negative value, raise a value below the threshold, arm the timer.\<close>

definition create_timer :: "delay \<Rightarrow> int \<Rightarrow> nat \<Rightarrow> timer" where
  "create_timer interval threshold iterations =
     (if js_less interval 0 then NoTimer
      else
        let interval' = (if js_less interval threshold then Millis threshold else interval)
        in SetTimeout interval' (iterations + 1))"

text \<open>Lines 23 to 41: the effect, on the store of array objects.\<close>

definition useInterval_effect :: "interval_value \<Rightarrow> int \<Rightarrow> nat \<Rightarrow> store \<Rightarrow> timer \<times> store" where
  "useInterval_effect interval threshold iterations s =
     (case interval of
        ArrayRef a \<Rightarrow>
          if length (cells s a) = 0 then (NoTimer, s)
          else
            let (b, s1) = Array_filter (\<lambda>ms. ms \<ge> 0) a s;
                (c, s2) = Array_sort b s1;
                interval' = Array_get c 0 s2
            in (create_timer interval' threshold iterations, s2)
      | Number n \<Rightarrow> (create_timer (Millis n) threshold iterations, s))"

text \<open>
  The spec's \<open>resolve\<close>: the effective Duration that the effect passes to the timer
  primitive, \<open>None\<close> when it schedules no timer.
\<close>

definition timer_delay :: "timer \<Rightarrow> delay option" where
  "timer_delay tm = (case tm of NoTimer \<Rightarrow> None | SetTimeout d k \<Rightarrow> Some d)"

definition resolve :: "interval_value \<Rightarrow> int \<Rightarrow> nat \<Rightarrow> store \<Rightarrow> delay option" where
  "resolve interval threshold iterations s =
     timer_delay (fst (useInterval_effect interval threshold iterations s))"

text \<open>The value of an argument: the number, or the elements of the array it refers to.\<close>

definition argument_value :: "interval_value \<Rightarrow> store \<Rightarrow> int + int list" where
  "argument_value interval s =
     (case interval of Number n \<Rightarrow> Inl n | ArrayRef a \<Rightarrow> Inr (cells s a))"

text \<open>
  The invariant of the spec's data model, on what reaches the timer primitive: no timer, or
  a delay that is at least the threshold and at least zero. \<^verbatim>\<open>undefined\<close> is no such
  delay: it compares false with every number.
\<close>

definition effective_ok :: "int \<Rightarrow> delay option \<Rightarrow> bool" where
  "effective_ok t r =
     (case r of None \<Rightarrow> True | Some Undefined \<Rightarrow> False | Some (Millis d) \<Rightarrow> t \<le> d \<and> 0 \<le> d)"

section \<open>Keyboard hooks\<close>

record KeyboardEvent =
  keyCode :: int
  shiftKey :: bool
  metaKey :: bool
  altKey :: bool
  ctrlKey :: bool

datatype event_name = keydown | keyup | keypress

text \<open>
  A listener acts on the world \<open>'w\<close> when it receives an event. The document keeps, for
  every event name, the listeners registered for it, in order of registration.
\<close>

type_synonym 'w listener = "KeyboardEvent \<Rightarrow> 'w \<Rightarrow> 'w"

type_synonym 'w document = "event_name \<Rightarrow> 'w listener list"

definition no_listeners :: "'w document" where
  "no_listeners = (\<lambda>_. [])"

definition addEventListener :: "event_name \<Rightarrow> 'w listener \<Rightarrow> 'w document \<Rightarrow> 'w document" where
  "addEventListener name f d = d(name := d name @ [f])"

definition dispatchEvent :: "event_name \<Rightarrow> KeyboardEvent \<Rightarrow> 'w document \<Rightarrow> 'w \<Rightarrow> 'w" where
  "dispatchEvent name e d w = fold (\<lambda>f. f e) (d name) w"

text \<open>Lines 75 to 82: the effect of \<^verbatim>\<open>useKeyPress\<close> registers the callback for key presses.\<close>

definition useKeyPress_effect :: "'w listener \<Rightarrow> 'w document \<Rightarrow> 'w document" where
  "useKeyPress_effect callback d = addEventListener keypress callback d"

text \<open>Lines 88 to 92: \<^verbatim>\<open>useEscapeKey\<close> wraps the callback in a test of the key code.\<close>

definition useEscapeKey_effect :: "'w listener \<Rightarrow> 'w document \<Rightarrow> 'w document" where
  "useEscapeKey_effect callback d =
     useKeyPress_effect (\<lambda>e w. if keyCode e = 27 then callback e w else w) d"

text \<open>A callback that records each of its invocations: the world is the list of its calls.\<close>

definition recording_callback :: "KeyboardEvent list listener" where
  "recording_callback e calls = calls @ [e]"

section \<open>Basic facts\<close>

lemma timer_delay_create_timer:
  "timer_delay (create_timer v t n) =
     (if js_less v 0 then None else Some (if js_less v t then Millis t else v))"
  by (simp add: timer_delay_def create_timer_def)

text \<open>A number argument: the result is a function of the number and the threshold.\<close>

lemma resolve_number:
  "resolve (Number d) t n s = (if d < 0 then None else Some (Millis (if d < t then t else d)))"
  by (simp add: resolve_def useInterval_effect_def timer_delay_create_timer)

text \<open>
  An array argument: the fresh array that \<open>Array_filter\<close> allocates is the one sorted and
  indexed, so the timer depends on the elements of the argument only.
\<close>

lemma useInterval_effect_array:
  assumes "cells s a \<noteq> []"
  shows "fst (useInterval_effect (ArrayRef a) t n s) =
     create_timer
       (case sort_key Number_toString (filter (\<lambda>ms. 0 \<le> ms) (cells s a)) of
          [] \<Rightarrow> Undefined | x # _ \<Rightarrow> Millis x) t n"
proof -
  let ?ys = "sort_key Number_toString (filter (\<lambda>ms. 0 \<le> ms) (cells s a))"
  have "Array_get (next_addr s) 0
          (snd (Array_sort (next_addr s) (snd (Array_filter (\<lambda>ms. 0 \<le> ms) a s)))) =
        (case ?ys of [] \<Rightarrow> Undefined | x # _ \<Rightarrow> Millis x)"
    by (cases ?ys) (simp_all add: Array_get_def Array_sort_def Array_filter_def array_alloc_def)
  with assms show ?thesis
    by (simp add: useInterval_effect_def Array_filter_def Array_sort_def array_alloc_def
        split: prod.splits)
qed

lemma resolve_array:
  "resolve (ArrayRef a) t n s =
     (if cells s a = [] then None
      else timer_delay (create_timer
        (case sort_key Number_toString (filter (\<lambda>ms. 0 \<le> ms) (cells s a)) of
           [] \<Rightarrow> Undefined | x # _ \<Rightarrow> Millis x) t 0))"
proof (cases "cells s a = []")
  case True
  then show ?thesis
    by (simp add: resolve_def useInterval_effect_def timer_delay_def)
next
  case False
  then show ?thesis
    by (simp add: resolve_def useInterval_effect_array timer_delay_create_timer)
qed

lemma resolve_all_negative:
  assumes "cells s a \<noteq> []" and "\<forall>x \<in> set (cells s a). x < 0"
  shows "resolve (ArrayRef a) t n s = Some Undefined"
proof -
  have "filter (\<lambda>ms. 0 \<le> ms) (cells s a) = []"
    using assms(2) by (auto simp: filter_empty_conv)
  with assms(1) show ?thesis
    by (simp add: resolve_array timer_delay_create_timer)
qed

text \<open>The effect writes to the array it allocated and to no array that existed before.\<close>

lemma useInterval_effect_frame:
  "b < next_addr s \<Longrightarrow> cells (snd (useInterval_effect i t n s)) b = cells s b"
  by (cases i)
    (simp_all add: useInterval_effect_def Array_filter_def Array_sort_def array_alloc_def
      split: prod.splits)

text \<open>The default sort puts 1000 before 300: the string \<open>''1000''\<close> is below \<open>''300''\<close>.\<close>

lemma sort_300_1000: "sort_key Number_toString [300, 1000] = [1000, 300]"
  by code_simp

lemma cells_literal: "cells (snd (array_alloc xs empty_store)) 0 = xs"
  by (simp add: array_alloc_def empty_store_def)

section \<open>Duration Sets\<close>

text \<open>
  C1. The spec says that from a Duration Set with a non-negative element the smallest
  non-negative element is selected, so that \<open>resolve([300, 1000], 0)\<close> is 300. The code
  sorts the kept elements with the default string order and takes the first: for the
  array \<open>[300, 1000]\<close> and threshold 0 the timer is armed with 1000.
\<close>

theorem resolve_300_1000_is_1000:
  "resolve (ArrayRef 0) 0 n (snd (array_alloc [300, 1000] empty_store)) = Some (Millis 1000)"
proof -
  have "timer_delay (create_timer (Millis 1000) 0 0) = Some (Millis 1000)"
    by (simp add: timer_delay_create_timer)
  then show ?thesis
    by (simp add: resolve_array cells_literal sort_300_1000 del: sort_key_simps)
qed

text \<open>
  C2. The spec says that a Duration Set of negative elements only gives no timer. In the
  code the filtered array is empty, its first element is \<^verbatim>\<open>undefined\<close>, neither
  comparison holds, and \<^verbatim>\<open>setTimeout\<close> is called with \<^verbatim>\<open>undefined\<close> as its delay: for
  the array \<open>[-5, -1]\<close> a timer is scheduled, whatever the threshold.
\<close>

theorem resolve_all_negative_schedules:
  "resolve (ArrayRef 0) t n (snd (array_alloc [- 5, - 1] empty_store)) = Some Undefined"
  by (simp add: resolve_all_negative cells_literal)

text \<open>
  C3. For the empty Duration Set the effect returns at line 26, whatever the threshold: no
  timer is scheduled (so no callback ever bumps the iterations), and the store is as it was.
\<close>

theorem resolve_empty_set:
  "cells s a = [] \<Longrightarrow>
     useInterval_effect (ArrayRef a) t n s = (NoTimer, s) \<and> resolve (ArrayRef a) t n s = None"
  by (simp add: resolve_def useInterval_effect_def timer_delay_def)

theorem resolve_empty_set_witness:
  "cells (snd (array_alloc [] empty_store)) 0 = [] \<and>
   useInterval_effect (ArrayRef 0) 1000 0 (snd (array_alloc [] empty_store)) =
     (NoTimer, snd (array_alloc [] empty_store)) \<and>
   resolve (ArrayRef 0) 1000 0 (snd (array_alloc [] empty_store)) = None"
  using resolve_empty_set [of "snd (array_alloc [] empty_store)" 0 1000 0]
  by (simp add: cells_literal)

section \<open>Single Durations\<close>


text \<open>
  C4. A negative single Duration is discarded whatever the threshold: no timer is
  scheduled, and the threshold is not applied to it.
\<close>

theorem resolve_negative_single:
  "d < 0 \<Longrightarrow> resolve (Number d) t n s = None"
  by (simp add: resolve_number)

theorem resolve_negative_single_witness:
  "resolve (Number (- 300)) 1000 0 empty_store = None"
  using resolve_negative_single [of "- 300" 1000 0 empty_store] by simp

text \<open>
  C5. A non-negative single Duration below a non-negative threshold is raised to the
  threshold; one at or above the threshold is the delay unchanged.
\<close>

theorem resolve_threshold:
  "0 \<le> d \<Longrightarrow> 0 \<le> t \<Longrightarrow>
     resolve (Number d) t n s = Some (Millis (if d < t then t else d))"
  by (simp add: resolve_number)

theorem resolve_threshold_witness:
  "resolve (Number 300) 1000 0 empty_store = Some (Millis 1000) \<and>
   resolve (Number 1500) 1000 0 empty_store = Some (Millis 1500)"
  using resolve_threshold [of 300 1000 0 empty_store]
    resolve_threshold [of 1500 1000 0 empty_store]
  by simp

text \<open>
  C8. A negative threshold is taken as it is and raises nothing: a non-negative Duration
  is the delay unchanged.
\<close>

theorem resolve_negative_threshold:
  "t < 0 \<Longrightarrow> 0 \<le> d \<Longrightarrow> resolve (Number d) t n s = Some (Millis d)"
  by (simp add: resolve_number)

theorem resolve_negative_threshold_witness:
  "resolve (Number 300) (- 1000) 0 empty_store = Some (Millis 300)"
  using resolve_negative_threshold [of "- 1000" 300 0 empty_store] by simp

section \<open>The invariant of the effective Duration\<close>

text \<open>
  The invariant holds for a number, for the empty array and for an array with a
  non-negative element: whichever kept element the sort puts first, it is at least zero,
  and the threshold is applied to it.
\<close>

lemma resolve_invariant_kept:
  assumes "0 \<le> t"
    and "\<forall>a. i = ArrayRef a \<longrightarrow> cells s a = [] \<or> (\<exists>x \<in> set (cells s a). 0 \<le> x)"
  shows "effective_ok t (resolve i t n s)"
proof (cases i)
  case (Number d)
  with assms(1) show ?thesis
    by (simp add: resolve_number effective_ok_def)
next
  case (ArrayRef a)
  show ?thesis
  proof (cases "cells s a = []")
    case True
    with ArrayRef show ?thesis
      by (simp add: resolve_array effective_ok_def)
  next
    case False
    let ?ys = "sort_key Number_toString (filter (\<lambda>ms. 0 \<le> ms) (cells s a))"
    from False assms(2) ArrayRef have "\<exists>x \<in> set (cells s a). 0 \<le> x" by simp
    then have "filter (\<lambda>ms. 0 \<le> ms) (cells s a) \<noteq> []"
      by (auto simp: filter_empty_conv)
    then have "?ys \<noteq> []" by (metis length_0_conv length_sort)
    then obtain y ys where ys: "?ys = y # ys" by (cases ?ys) auto
    have "y \<in> set ?ys" by (simp add: ys)
    then have "0 \<le> y" by simp
    with False ArrayRef ys assms(1) show ?thesis
      by (simp add: resolve_array timer_delay_create_timer effective_ok_def)
  qed
qed

text \<open>
  C6. The spec's invariant: what reaches the timer primitive is absent, or at least the
  threshold and at least zero. For the array \<open>[-5, -1]\<close> and threshold 1000 the code arms
  a timer with the delay \<^verbatim>\<open>undefined\<close>, which the threshold never raised.
\<close>

theorem invariant_broken_all_negative:
  "\<not> effective_ok 1000
       (resolve (ArrayRef 0) 1000 n (snd (array_alloc [- 5, - 1] empty_store)))"
  by (simp add: resolve_all_negative cells_literal effective_ok_def)

section \<open>Determinism and the frame of the effect\<close>

text \<open>
  C7. The result is a function of the argument's value and the threshold: two calls whose
  arguments have the same value (the same number, or arrays with the same elements) give
  the same result, whatever the iterations state and the rest of the store at each call.
\<close>

theorem resolve_deterministic:
  assumes "argument_value i1 s1 = argument_value i2 s2"
  shows "resolve i1 t n1 s1 = resolve i2 t n2 s2"
proof (cases i1)
  case n1: (Number d1)
  with assms have "i2 = Number d1"
    by (cases i2) (simp_all add: argument_value_def)
  with n1 show ?thesis
    by (simp add: resolve_number)
next
  case a1: (ArrayRef a1)
  with assms obtain a2 where "i2 = ArrayRef a2" and "cells s1 a1 = cells s2 a2"
    by (cases i2) (simp_all add: argument_value_def)
  with a1 show ?thesis
    by (simp add: resolve_array)
qed

theorem resolve_deterministic_witness:
  "resolve (ArrayRef 0) 0 0 (snd (array_alloc [300, 1000] empty_store)) =
   resolve (ArrayRef 1) 0 7 (snd (array_alloc [300, 1000] (snd (array_alloc [5] empty_store))))"
  using resolve_deterministic [of "ArrayRef 0" "snd (array_alloc [300, 1000] empty_store)"
      "ArrayRef 1" "snd (array_alloc [300, 1000] (snd (array_alloc [5] empty_store)))" 0 0 7]
  by (simp add: argument_value_def array_alloc_def empty_store_def)

text \<open>
  C10. The effect does not change the array it is given: the array at the argument's
  address has the same elements in the same order afterwards, since the sort works on the
  array that the filter allocated.
\<close>

theorem useInterval_keeps_argument:
  "allocated s a \<Longrightarrow> cells (snd (useInterval_effect (ArrayRef a) t n s)) a = cells s a"
  by (simp add: allocated_def useInterval_effect_frame)

theorem useInterval_keeps_argument_witness:
  "allocated (snd (array_alloc [300, - 2, 1000] empty_store)) 0 \<and>
   cells (snd (useInterval_effect (ArrayRef 0) 0 0
     (snd (array_alloc [300, - 2, 1000] empty_store)))) 0 = [300, - 2, 1000]"
  using useInterval_keeps_argument [of "snd (array_alloc [300, - 2, 1000] empty_store)" 0 0 0]
  by (simp add: allocated_def array_alloc_def empty_store_def)

text \<open>
  Hence a second run of the effect on the store the first run left, with the same
  argument, arms the same timer delay.
\<close>

lemma resolve_twice:
  assumes "\<forall>a. i = ArrayRef a \<longrightarrow> allocated s a"
  shows "resolve i t m (snd (useInterval_effect i t n s)) = resolve i t n s"
proof (cases i)
  case (Number d)
  then show ?thesis by (simp add: resolve_number)
next
  case (ArrayRef a)
  with assms have "cells (snd (useInterval_effect i t n s)) a = cells s a"
    by (simp add: allocated_def useInterval_effect_frame)
  with ArrayRef show ?thesis by (simp add: resolve_array)
qed

section \<open>The escape key\<close>

text \<open>
  C9. With the hook mounted on a document and a callback that records its calls: an event
  dispatched to the document invokes the callback (once, with that event) if it is a key
  press whose key code is 27, and does not invoke it otherwise.
\<close>

theorem useEscapeKey_invokes_iff_27:
  "dispatchEvent name e (useEscapeKey_effect recording_callback no_listeners) calls =
     (if name = keypress \<and> keyCode e = 27 then calls @ [e] else calls)"
  by (simp add: dispatchEvent_def useEscapeKey_effect_def useKeyPress_effect_def
      addEventListener_def no_listeners_def recording_callback_def)

end
